theory Spec2Isabelle
  imports Main "HOL-Library.Sublist" "HOL-Library.Word"
begin

section \<open>Go strings, as byte lists\<close>

text \<open>
  A Go \<^verbatim>\<open>string\<close> is a sequence of bytes; \<^typ>\<open>string\<close> (a list of 8-bit
  characters) is the same thing.  The functions of package \<^verbatim>\<open>strings\<close> that the
  provider calls are written out here; the separator of \<^verbatim>\<open>strings.Split\<close> and the
  glue of \<^verbatim>\<open>strings.Join\<close> are always the one byte \<^verbatim>\<open>"\n"\<close> in the sources.
\<close>

abbreviation nl :: char where
  "nl \<equiv> CHR 0x0A"

text \<open>\<^verbatim>\<open>strings.HasPrefix(s, prefix)\<close>.\<close>

fun HasPrefix :: "string \<Rightarrow> string \<Rightarrow> bool" where
  "HasPrefix s [] = True"
| "HasPrefix [] (p # ps) = False"
| "HasPrefix (c # s) (p # ps) = (c = p \<and> HasPrefix s ps)"

text \<open>\<^verbatim>\<open>strings.Contains(s, substr)\<close>: \<^verbatim>\<open>substr\<close> occurs somewhere within \<^verbatim>\<open>s\<close>.\<close>

fun Contains :: "string \<Rightarrow> string \<Rightarrow> bool" where
  "Contains [] substr = HasPrefix [] substr"
| "Contains (c # s) substr = (HasPrefix (c # s) substr \<or> Contains s substr)"

text \<open>
  \<^verbatim>\<open>strings.Split(s, sep)\<close> for a one-byte separator: the pieces between the
  separators, one more than there are separators, so never the empty list.
\<close>

fun Split :: "string \<Rightarrow> char \<Rightarrow> string list" where
  "Split [] sep = [[]]"
| "Split (c # s) sep =
     (if c = sep then [] # Split s sep
      else (case Split s sep of
              piece # pieces \<Rightarrow> (c # piece) # pieces
            | [] \<Rightarrow> [[c]]))"

text \<open>\<^verbatim>\<open>strings.Join(elems, sep)\<close>.\<close>

fun Join :: "string list \<Rightarrow> string \<Rightarrow> string" where
  "Join [] sep = []"
| "Join [e] sep = e"
| "Join (e # e' # es) sep = e @ sep @ Join (e' # es) sep"

section \<open>Scrubbing the echoed sudo password (SSHService.go)\<close>

text \<open>The literal the scrubber looks for.\<close>

definition sudo_prompt :: string where
  "sudo_prompt = ''[sudo] password for''"

text \<open>
  \<^verbatim>\<open>extractSudoPasswordFromOutput(stdout *bytes.Buffer, password *string)\<close>.  The
  buffer is reset and rewritten; the model returns its new contents.  The password is
  only read.  Appending to the nil slice \<^verbatim>\<open>filteredOutput\<close> in a loop is
  \<^const>\<open>filter\<close>; \<^verbatim>\<open>len(commandOutput) > 0\<close> guards the read of element 0.
\<close>

definition extractSudoPasswordFromOutput :: "string \<Rightarrow> string \<Rightarrow> string" where
  "extractSudoPasswordFromOutput stdout password =
     (let commandOutput = Split stdout nl;
          commandOutput' =
            (if Contains stdout sudo_prompt
             then filter (\<lambda>line. \<not> Contains line password \<and> \<not> Contains line sudo_prompt)
                    commandOutput
             else if length commandOutput > 0 \<and> Contains (hd commandOutput) password
                  then tl commandOutput
                  else commandOutput)
      in Join commandOutput' [nl])"

text \<open>
  \<^verbatim>\<open>strings.TrimSpace(s)\<close> removes leading and trailing white space as Unicode
  defines it.  On bytes: the runes with property White_Space, each in its (only valid)
  UTF-8 encoding.  A byte sequence that is no valid encoding decodes to the error rune,
  which is no space, so trimming stops there.
\<close>

definition unicode_White_Space :: "string list" where
  "unicode_White_Space =
     [[CHR 0x09], [CHR 0x0A], [CHR 0x0B], [CHR 0x0C], [CHR 0x0D], [CHR 0x20],
      [CHR 0xC2, CHR 0x85], [CHR 0xC2, CHR 0xA0],
      [CHR 0xE1, CHR 0x9A, CHR 0x80],
      [CHR 0xE2, CHR 0x80, CHR 0x80], [CHR 0xE2, CHR 0x80, CHR 0x81],
      [CHR 0xE2, CHR 0x80, CHR 0x82], [CHR 0xE2, CHR 0x80, CHR 0x83],
      [CHR 0xE2, CHR 0x80, CHR 0x84], [CHR 0xE2, CHR 0x80, CHR 0x85],
      [CHR 0xE2, CHR 0x80, CHR 0x86], [CHR 0xE2, CHR 0x80, CHR 0x87],
      [CHR 0xE2, CHR 0x80, CHR 0x88], [CHR 0xE2, CHR 0x80, CHR 0x89],
      [CHR 0xE2, CHR 0x80, CHR 0x8A],
      [CHR 0xE2, CHR 0x80, CHR 0xA8], [CHR 0xE2, CHR 0x80, CHR 0xA9],
      [CHR 0xE2, CHR 0x80, CHR 0xAF], [CHR 0xE2, CHR 0x81, CHR 0x9F],
      [CHR 0xE3, CHR 0x80, CHR 0x80]]"

text \<open>The width of the white-space rune a string starts with, 0 when it starts with none.\<close>

definition leading_width :: "string list \<Rightarrow> string \<Rightarrow> nat" where
  "leading_width spaces s =
     (case find (\<lambda>q. HasPrefix s q) spaces of None \<Rightarrow> 0 | Some q \<Rightarrow> length q)"

function trim_leading :: "string list \<Rightarrow> string \<Rightarrow> string" where
  "trim_leading spaces s =
     (if leading_width spaces s = 0 \<or> s = [] then s
      else trim_leading spaces (drop (leading_width spaces s) s))"
  by pat_completeness auto
termination
  by (relation "measure (\<lambda>(spaces, s). length s)") auto

text \<open>Trimming at the end is trimming the reversed string by the reversed encodings.\<close>

definition TrimSpace :: "string \<Rightarrow> string" where
  "TrimSpace s =
     rev (trim_leading (map rev unicode_White_Space)
            (rev (trim_leading unicode_White_Space s)))"

text \<open>
  \<^verbatim>\<open>strconv.Itoa(i)\<close>: the decimal digits of an integer, with a minus sign when it
  is negative.
\<close>

fun decimal :: "nat \<Rightarrow> string" where
  "decimal n =
     (if n < 10 then [''0123456789'' ! n]
      else decimal (n div 10) @ [''0123456789'' ! (n mod 10)])"

definition Itoa :: "int \<Rightarrow> string" where
  "Itoa i = (if i < 0 then ''-'' @ decimal (nat (- i)) else decimal (nat i))"

section \<open>Data model (servers.go, SSHService.go)\<close>

text \<open>
  Go errors, by the kinds the sources tell apart: the filesystem helper's
  \<^verbatim>\<open>FileNotFoundError\<close>, the library's \<^verbatim>\<open>*ssh.ExitError\<close> with its exit status,
  the executor's \<^verbatim>\<open>"no connection found for server %s"\<close>, the resolver's
  \<^verbatim>\<open>ExitCodeError{code int8, stderr string}\<close>, and any other error by its message.
\<close>

datatype error =
    FileNotFoundError
  | SSHExitError int
  | NoConnectionFound string
  | ExitCodeError "8 word" string
  | OtherError string

text \<open>\<^verbatim>\<open>servers.ServerCommand\<close> (its unexported back pointer is never set or read).\<close>

record ServerCommand =
  Command :: string
  Stdout :: string
  Stderr :: string
  ExitCode :: "8 word"

text \<open>
  \<^verbatim>\<open>servers.Server\<close>.  The field \<^verbatim>\<open>Args map[string]any\<close> is left out: nothing
  in the repository reads or writes it.
\<close>

record Server =
  Name :: string
  Address :: string
  Port :: "16 word"
  User :: string
  Password :: string
  PrivateKeyPath :: string
  SudoPassword :: string
  Err :: "error option"
  History :: "ServerCommand list"

definition GetFullAddress :: "Server \<Rightarrow> string" where
  "GetFullAddress s = Address s @ '':'' @ Itoa (int (unat (Port s)))"

section \<open>The world outside the process\<close>

text \<open>
  What the SSH library, the remote host and the local file system answer is not code of
  this repository: it is a parameter.  Each answer may depend on everything that happened
  before, the \<open>trace\<close> of external calls, which the model extends at every such call;
  counting the dials of a run is counting its \<open>EvDial\<close> events.
\<close>

datatype signer = Signer string

datatype auth_method = AuthPassword string | AuthPublicKeys signer

datatype host_key_policy = InsecureIgnoreHostKey

text \<open>\<^verbatim>\<open>ssh.ClientConfig\<close>, the fields \<^verbatim>\<open>createSSHClient\<close> sets (the timeout in seconds).\<close>

record ClientConfig =
  conf_User :: string
  HostKeyCallback :: host_key_policy
  Auth :: "auth_method list"
  Timeout :: nat

datatype client = Client nat

datatype session = Session nat

datatype event =
    EvStat string
  | EvReadFile string
  | EvDial string ClientConfig
  | EvNewSession client
  | EvRequestPty session
  | EvRun session string string
  | EvSessionClose session
  | EvClientClose client

record world =
  stat_exists :: "event list \<Rightarrow> string \<Rightarrow> bool"
  read_file :: "event list \<Rightarrow> string \<Rightarrow> error + string"
  parse_key :: "string \<Rightarrow> error + signer"
  dial :: "event list \<Rightarrow> string \<Rightarrow> ClientConfig \<Rightarrow> error + client"
  new_session :: "event list \<Rightarrow> client \<Rightarrow> error + session"
  request_pty :: "event list \<Rightarrow> session \<Rightarrow> error option"
  run :: "event list \<Rightarrow> session \<Rightarrow> string \<Rightarrow> string \<Rightarrow> string \<times> string \<times> error option"
  close_client :: "event list \<Rightarrow> client \<Rightarrow> error option"
  trace :: "event list"

definition log_event :: "world \<Rightarrow> event \<Rightarrow> world" where
  "log_event w ev = w\<lparr>trace := trace w @ [ev]\<rparr>"

fun is_dial :: "event \<Rightarrow> bool" where
  "is_dial (EvDial addr conf) = True"
| "is_dial ev = False"

definition dials :: "world \<Rightarrow> event list" where
  "dials w = filter is_dial (trace w)"

section \<open>Reading the key file (filesystem/main.go)\<close>

text \<open>\<^verbatim>\<open>FileExists\<close>: \<^verbatim>\<open>os.Stat\<close> did not answer "does not exist".\<close>

definition FileExists :: "world \<Rightarrow> string \<Rightarrow> bool \<times> world" where
  "FileExists w path = (stat_exists w (trace w) path, log_event w (EvStat path))"

text \<open>
  \<^verbatim>\<open>ReadFile(path) ([]byte, error)\<close>.  Go returns the pair; on both error paths the
  bytes are \<^verbatim>\<open>nil\<close>, the empty byte list.
\<close>

definition ReadFile :: "world \<Rightarrow> string \<Rightarrow> (string \<times> error option) \<times> world" where
  "ReadFile w path =
     (case FileExists w path of
        (False, w1) \<Rightarrow> (([], Some FileNotFoundError), w1)
      | (True, w1) \<Rightarrow>
          (case read_file w1 (trace w1) path of
             Inl e \<Rightarrow> (([], Some e), log_event w1 (EvReadFile path))
           | Inr file \<Rightarrow> ((file, None), log_event w1 (EvReadFile path))))"

section \<open>The connection manager (SSHService.go)\<close>

text \<open>
  \<^verbatim>\<open>SSHConnection\<close> pairs a server with a client.  The Go field is a pointer to the
  server; the registry is modelled with the server's value, which is exact for the
  fields the manager reads (\<open>Name\<close>, \<open>SudoPassword\<close>): no operation of the manager
  writes them.
\<close>

record SSHConnection =
  host :: Server
  client :: client

text \<open>\<^verbatim>\<open>SSHService\<close>; the nil slice and the empty slice are both \<open>[]\<close>.\<close>

record SSHService =
  connections :: "SSHConnection list"

text \<open>
  \<^verbatim>\<open>ssh.ParsePrivateKey\<close> (golang.org/x/crypto/ssh) first looks for a PEM block and
  answers \<^verbatim>\<open>"ssh: no key found"\<close> when there is none, as in empty input; what it
  makes of any other input is the world's \<open>parse_key\<close>.
\<close>

definition ssh_ParsePrivateKey :: "world \<Rightarrow> string \<Rightarrow> error + signer" where
  "ssh_ParsePrivateKey w pemBytes =
     (if pemBytes = [] then Inl (OtherError ''ssh: no key found'')
      else parse_key w pemBytes)"

definition ssh_Dial :: "world \<Rightarrow> string \<Rightarrow> ClientConfig \<Rightarrow> (error + client) \<times> world" where
  "ssh_Dial w addr conf = (dial w (trace w) addr conf, log_event w (EvDial addr conf))"

text \<open>
  \<^verbatim>\<open>createSSHClient(host)\<close>.  The early return after \<^verbatim>\<open>ReadFile\<close> is taken only when
  the read failed and the server has no password; otherwise the bytes read (none, after
  a failed read) go on to the key parser.  The prints are left out.
\<close>

definition createSSHClient :: "world \<Rightarrow> Server \<Rightarrow> (error + client) \<times> world" where
  "createSSHClient w h =
     (let conf0 = \<lparr>conf_User = User h, HostKeyCallback = InsecureIgnoreHostKey,
                   Auth = [], Timeout = 10\<rparr>;
          conf1 = (if length (Password h) > 0
                   then conf0\<lparr>Auth := Auth conf0 @ [AuthPassword (Password h)]\<rparr>
                   else conf0)
      in if length (PrivateKeyPath h) > 0
         then (case ReadFile w (PrivateKeyPath h) of
                 ((keyFile, err), w1) \<Rightarrow>
                   (case (err, Password h = []) of
                      (Some e, True) \<Rightarrow> (Inl e, w1)
                    | _ \<Rightarrow>
                        (case ssh_ParsePrivateKey w1 keyFile of
                           Inl e \<Rightarrow> (Inl e, w1)
                         | Inr sg \<Rightarrow>
                             ssh_Dial w1 (GetFullAddress h)
                               (conf1\<lparr>Auth := Auth conf1 @ [AuthPublicKeys sg]\<rparr>))))
         else ssh_Dial w (GetFullAddress h) conf1)"

text \<open>The lookup loop shared by all three operations: the first connection of that name.\<close>

definition find_connection :: "SSHConnection list \<Rightarrow> string \<Rightarrow> SSHConnection option" where
  "find_connection conns name = find (\<lambda>c. Name (host c) = name) conns"

text \<open>\<^verbatim>\<open>NewSSHService(hosts)\<close>: the loop over the hosts, then the service.\<close>

fun NewSSHService_loop ::
  "world \<Rightarrow> SSHConnection list \<Rightarrow> Server list \<Rightarrow> SSHConnection list \<times> world" where
  "NewSSHService_loop w conns [] = (conns, w)"
| "NewSSHService_loop w conns (h # hosts) =
     (case find_connection conns (Name h) of
        Some found \<Rightarrow> NewSSHService_loop w conns hosts
      | None \<Rightarrow>
          (case createSSHClient w h of
             (Inl e, w1) \<Rightarrow> NewSSHService_loop w1 conns hosts
           | (Inr cl, w1) \<Rightarrow>
               NewSSHService_loop w1 (conns @ [\<lparr>host = h, client = cl\<rparr>]) hosts))"

definition NewSSHService :: "world \<Rightarrow> Server list \<Rightarrow> SSHService \<times> world" where
  "NewSSHService w hosts =
     (case NewSSHService_loop w [] hosts of
        (conns, w1) \<Rightarrow> (\<lparr>connections = conns\<rparr>, w1))"

text \<open>\<^verbatim>\<open>OpenConnection(host) error\<close>: the error (or none), the service and the world after.\<close>

definition OpenConnection ::
  "world \<Rightarrow> SSHService \<Rightarrow> Server \<Rightarrow> error option \<times> SSHService \<times> world" where
  "OpenConnection w service h =
     (case find_connection (connections service) (Name h) of
        Some found \<Rightarrow> (None, service, w)
      | None \<Rightarrow>
          (case createSSHClient w h of
             (Inl e, w1) \<Rightarrow> (Some e, service, w1)
           | (Inr cl, w1) \<Rightarrow>
               (None,
                service\<lparr>connections := connections service @ [\<lparr>host = h, client = cl\<rparr>]\<rparr>,
                w1)))"

text \<open>\<^verbatim>\<open>CloseConnection(connection)\<close> closes the client; the registry is not touched.\<close>

definition CloseConnection ::
  "world \<Rightarrow> SSHService \<Rightarrow> SSHConnection \<Rightarrow> error option \<times> SSHService \<times> world" where
  "CloseConnection w service connection =
     (close_client w (trace w) (client connection), service,
      log_event w (EvClientClose (client connection)))"

definition GetConnections :: "SSHService \<Rightarrow> SSHConnection list" where
  "GetConnections service = connections service"

section \<open>The command executor (SSHService.go)\<close>

definition spawnSession :: "world \<Rightarrow> SSHConnection \<Rightarrow> (error + session) \<times> world" where
  "spawnSession w connection =
     (new_session w (trace w) (client connection),
      log_event w (EvNewSession (client connection)))"

text \<open>
  \<^verbatim>\<open>extractExitCode(err) int8\<close>: the exit status of an \<^verbatim>\<open>*ssh.ExitError\<close>,
  converted from \<^verbatim>\<open>int\<close> to \<^verbatim>\<open>int8\<close> (the low eight bits), 0 for anything else.
\<close>

fun extractExitCode :: "error option \<Rightarrow> 8 word" where
  "extractExitCode (Some (SSHExitError status)) = word_of_int status"
| "extractExitCode err = 0"

text \<open>
  \<^verbatim>\<open>ExecuteCommand(command, server) (*ServerCommand, error)\<close>: the pair returned, the
  server (whose history grows) and the world after.  The deferred \<^verbatim>\<open>session.Close\<close>
  runs on every path past the session's creation; its error is only printed.
\<close>

definition ExecuteCommand ::
  "world \<Rightarrow> SSHService \<Rightarrow> string \<Rightarrow> Server \<Rightarrow>
     (ServerCommand option \<times> error option) \<times> Server \<times> world" where
  "ExecuteCommand w service command server =
     (case find_connection (connections service) (Name server) of
        None \<Rightarrow> ((None, Some (NoConnectionFound (Name server))), server, w)
      | Some connection \<Rightarrow>
          (case spawnSession w connection of
             (Inl e, w1) \<Rightarrow> ((None, Some e), server, w1)
           | (Inr sess, w1) \<Rightarrow>
               (let stdin = SudoPassword (host connection) @ [nl] in
                case request_pty w1 (trace w1) sess of
                  Some e \<Rightarrow>
                    ((None, Some e), server,
                     log_event (log_event w1 (EvRequestPty sess)) (EvSessionClose sess))
                | None \<Rightarrow>
                    (let w2 = log_event w1 (EvRequestPty sess) in
                     case run w2 (trace w2) sess command stdin of
                       (out, errout, err) \<Rightarrow>
                         (let stdout = extractSudoPasswordFromOutput out
                                         (SudoPassword (host connection));
                              serverCommand =
                                \<lparr>Command = command, Stdout = stdout, Stderr = errout,
                                 ExitCode = extractExitCode err\<rparr>
                          in ((Some serverCommand, err),
                              server\<lparr>History := History server @ [serverCommand]\<rparr>,
                              log_event (log_event w2 (EvRun sess command stdin))
                                (EvSessionClose sess)))))))"

section \<open>The remote-file resolver (the resource's \<^verbatim>\<open>getFile\<close>)\<close>

text \<open>
  \<^verbatim>\<open>types.String\<close> and \<^verbatim>\<open>types.Bool\<close> of the plugin framework: null, unknown or a
  value; \<^verbatim>\<open>ValueString\<close> and \<^verbatim>\<open>ValueBool\<close> answer the zero value unless known.
\<close>

datatype tf_string = StringNull | StringUnknown | StringValue string

datatype tf_bool = BoolNull | BoolUnknown | BoolValue bool

fun ValueString :: "tf_string \<Rightarrow> string" where
  "ValueString (StringValue s) = s"
| "ValueString v = []"

fun ValueBool :: "tf_bool \<Rightarrow> bool" where
  "ValueBool (BoolValue b) = b"
| "ValueBool v = False"

record HostConnectionModel =
  hc_Host :: tf_string
  hc_User :: tf_string
  hc_PrivateKey :: tf_string
  hc_Password :: tf_string

text \<open>
  \<^verbatim>\<open>RemoteFileResourceModel\<close>; the pointer to the connection block may be nil.
  The field \<^verbatim>\<open>Id\<close> is \<open>Id'\<close> here, \<open>Id\<close> being the identity relation of HOL.
\<close>

record RemoteFileResourceModel =
  Id' :: tf_string
  HostConnection :: "HostConnectionModel option"
  Path :: tf_string
  Content :: tf_string
  Privileged :: tf_bool
  Sensitive :: tf_bool
  SensitiveContent :: tf_string

text \<open>How a call ends: it returns its error value (none on success), or the runtime panics.\<close>

datatype panic = NilPointerDereference | IndexOutOfRange

datatype outcome = Returned "error option" | Panicked panic

text \<open>The server literal at the head of \<^verbatim>\<open>getFile\<close>; fields not named are zero.\<close>

definition getFile_server :: "HostConnectionModel \<Rightarrow> Server" where
  "getFile_server hc =
     \<lparr>Name = ValueString (hc_Host hc),
      Address = ValueString (hc_Host hc),
      Port = 22,
      User = ValueString (hc_User hc),
      Password = [],
      PrivateKeyPath = ValueString (hc_PrivateKey hc),
      SudoPassword = [],
      Err = None,
      History = []\<rparr>"

text \<open>
  \<^verbatim>\<open>fmt.Sprintf("%sstat -c '%%i' %s; %scat %s", sudoText, path, sudoText, path)\<close>
  (\<^verbatim>\<open>CHR 0x27\<close> is the single quote).
\<close>

definition combinedCmd :: "RemoteFileResourceModel \<Rightarrow> string" where
  "combinedCmd data =
     (let sudoText = (if ValueBool (Privileged data) then ''sudo '' else [])
      in sudoText @ ''stat -c '' @ [CHR 0x27] @ ''%i'' @ [CHR 0x27] @ '' ''
           @ ValueString (Path data) @ ''; '' @ sudoText @ ''cat ''
           @ ValueString (Path data))"

text \<open>
  The tail of \<^verbatim>\<open>getFile\<close>, from the exit-code test on: what it makes of the command
  the executor returned.  \<^verbatim>\<open>outputs[1]\<close> is read with no test of the length, and the
  runtime panics when there is no such element; \<^verbatim>\<open>outputs[2:]\<close> is then in range.
\<close>

definition getFile_parse ::
  "RemoteFileResourceModel \<Rightarrow> HostConnectionModel \<Rightarrow> ServerCommand \<Rightarrow>
     outcome \<times> RemoteFileResourceModel" where
  "getFile_parse data hc command =
     (if ExitCode command \<noteq> 0
      then (Returned (Some (ExitCodeError (ExitCode command) (Stderr command))), data)
      else
        (let outputs = Split (Stdout command) nl in
         if length outputs \<le> 1 then (Panicked IndexOutOfRange, data)
         else
           (let inode = TrimSpace (outputs ! 1);
                content = Join (drop 2 outputs) [nl];
                data1 = data\<lparr>Id' := StringValue (ValueString (hc_Host hc) @ ''-'' @ inode),
                              Content := StringValue [],
                              SensitiveContent := StringValue []\<rparr>
            in (Returned None,
                (if ValueBool (Sensitive data1)
                 then data1\<lparr>SensitiveContent := StringValue content\<rparr>
                 else data1\<lparr>Content := StringValue content\<rparr>)))))"

text \<open>
  \<^verbatim>\<open>getFile(data, r, ctx) error\<close>: how the call ends, the model it leaves (Go mutates
  it in place), the service and the world after.  The log line is left out.  A nil command
  with a nil error, which the executor never returns, would be a nil dereference.
\<close>

definition getFile ::
  "world \<Rightarrow> SSHService \<Rightarrow> RemoteFileResourceModel \<Rightarrow>
     outcome \<times> RemoteFileResourceModel \<times> SSHService \<times> world" where
  "getFile w service data =
     (case HostConnection data of
        None \<Rightarrow> (Panicked NilPointerDereference, data, service, w)
      | Some hc \<Rightarrow>
          (let server = getFile_server hc in
           case OpenConnection w service server of
             (Some e, service1, w1) \<Rightarrow> (Returned (Some e), data, service1, w1)
           | (None, service1, w1) \<Rightarrow>
               (case ExecuteCommand w1 service1 (combinedCmd data) server of
                  ((command, Some e), server1, w2) \<Rightarrow>
                    (Returned (Some e), data, service1, w2)
                | ((None, None), server1, w2) \<Rightarrow>
                    (Panicked NilPointerDereference, data, service1, w2)
                | ((Some command, None), server1, w2) \<Rightarrow>
                    (case getFile_parse data hc command of
                       (res, data1) \<Rightarrow> (res, data1, service1, w2)))))"

text \<open>
  A run of the manager: operations applied one after the other, to state the invariant
  of the registry over every such run.
\<close>

datatype operation =
    OpOpen Server
  | OpClose SSHConnection
  | OpExecute string Server

fun apply_operation :: "world \<Rightarrow> SSHService \<Rightarrow> operation \<Rightarrow> SSHService \<times> world" where
  "apply_operation w service (OpOpen h) =
     (case OpenConnection w service h of (err, service1, w1) \<Rightarrow> (service1, w1))"
| "apply_operation w service (OpClose connection) =
     (case CloseConnection w service connection of (err, service1, w1) \<Rightarrow> (service1, w1))"
| "apply_operation w service (OpExecute command server) =
     (case ExecuteCommand w service command server of (res, server1, w1) \<Rightarrow> (service, w1))"

fun apply_operations ::
  "world \<Rightarrow> SSHService \<Rightarrow> operation list \<Rightarrow> SSHService \<times> world" where
  "apply_operations w service [] = (service, w)"
| "apply_operations w service (op # ops) =
     (case apply_operation w service op of
        (service1, w1) \<Rightarrow> apply_operations w1 service1 ops)"

definition names :: "SSHService \<Rightarrow> string list" where
  "names service = map (\<lambda>c. Name (host c)) (connections service)"

text \<open>
  Calling \<^verbatim>\<open>OpenConnection\<close> twice with the same server, the second call in the
  state the first one left: the error of the second call, the service after it, and the
  number of dials the two calls made.
\<close>

definition open_twice ::
  "world \<Rightarrow> SSHService \<Rightarrow> Server \<Rightarrow> error option \<times> SSHService \<times> nat" where
  "open_twice w service h =
     (case OpenConnection w service h of
        (err1, service1, w1) \<Rightarrow>
          (case OpenConnection w1 service1 h of
             (err2, service2, w2) \<Rightarrow>
               (err2, service2, length (dials w2) - length (dials w))))"

text \<open>A dial whose configuration offers password authentication.\<close>

fun is_AuthPassword :: "auth_method \<Rightarrow> bool" where
  "is_AuthPassword (AuthPassword p) = True"
| "is_AuthPassword m = False"

fun password_dial :: "event \<Rightarrow> bool" where
  "password_dial (EvDial addr conf) = list_ex is_AuthPassword (Auth conf)"
| "password_dial ev = False"

section \<open>Concrete worlds and inputs\<close>

text \<open>
  A world in which every file exists and reads as \<^verbatim>\<open>"KEY"\<close>, every non-empty key
  parses, every dial and session succeeds, and every command gets the given reply
  (standard output, standard error, the error of \<^verbatim>\<open>session.Run\<close>).
\<close>

definition answering_world :: "string \<times> string \<times> error option \<Rightarrow> world" where
  "answering_world reply =
     \<lparr>stat_exists = (\<lambda>tr path. True),
      read_file = (\<lambda>tr path. Inr ''KEY''),
      parse_key = (\<lambda>pem. Inr (Signer pem)),
      dial = (\<lambda>tr addr conf. Inr (Client (length tr))),
      new_session = (\<lambda>tr cl. Inr (Session (length tr))),
      request_pty = (\<lambda>tr sess. None),
      run = (\<lambda>tr sess command stdin. reply),
      close_client = (\<lambda>tr cl. None),
      trace = []\<rparr>"

text \<open>The same world with no host answering a dial, and with no file on disk.\<close>

definition unreachable_world :: world where
  "unreachable_world =
     (answering_world ([], [], None))
       \<lparr>dial := (\<lambda>tr addr conf. Inl (OtherError ''dial tcp: i/o timeout''))\<rparr>"

definition keyless_world :: world where
  "keyless_world = (answering_world ([], [], None))\<lparr>stat_exists := (\<lambda>tr path. False)\<rparr>"

definition example_server :: Server where
  "example_server =
     \<lparr>Name = ''web'', Address = ''10.0.0.5'', Port = 22, User = ''alice'',
      Password = ''hunter2'', PrivateKeyPath = ''/home/alice/.ssh/id_rsa'',
      SudoPassword = ''secret123'', Err = None, History = []\<rparr>"

definition example_connection :: HostConnectionModel where
  "example_connection =
     \<lparr>hc_Host = StringValue ''10.0.0.5'', hc_User = StringValue ''alice'',
      hc_PrivateKey = StringValue ''/home/alice/.ssh/id_rsa'',
      hc_Password = StringValue ''hunter2''\<rparr>"

definition example_data :: "bool \<Rightarrow> RemoteFileResourceModel" where
  "example_data sensitive =
     \<lparr>Id' = StringUnknown, HostConnection = Some example_connection,
      Path = StringValue ''/etc/motd'', Content = StringUnknown,
      Privileged = BoolValue False, Sensitive = BoolValue sensitive,
      SensitiveContent = StringUnknown\<rparr>"

definition empty_service :: SSHService where
  "empty_service = \<lparr>connections = []\<rparr>"

section \<open>Facts about the string functions\<close>

lemma HasPrefix_prefix: "HasPrefix s p = prefix p s"
  by (induction s p rule: HasPrefix.induct) auto

lemma Contains_sublist: "Contains s t = sublist t s"
  by (induction s) (auto simp: HasPrefix_prefix sublist_Cons_right)

lemma Contains_Nil [simp]: "Contains s []"
  by (simp add: Contains_sublist)

lemma Split_not_Nil [simp]: "Split s sep \<noteq> []"
  by (cases s) (auto split: list.splits)

lemma length_Split_pos [simp]: "0 < length (Split s sep)"
  by simp

lemma Split_Cons:
  "Split (c # s) sep =
     (if c = sep then [] # Split s sep else (c # hd (Split s sep)) # tl (Split s sep))"
  by (cases "Split s sep") auto

lemma hd_Split: "hd (Split s sep) = takeWhile (\<lambda>c. c \<noteq> sep) s"
  by (induction s) (auto simp: Split_Cons simp del: Split.simps(2))

lemma list_ex_hd_tl: "xs \<noteq> [] \<Longrightarrow> list_ex P xs = (P (hd xs) \<or> list_ex P (tl xs))"
  by (cases xs) auto

lemma prefix_takeWhile: "sep \<notin> set m \<Longrightarrow> prefix m s = prefix m (takeWhile (\<lambda>c. c \<noteq> sep) s)"
proof (induction s arbitrary: m)
  case Nil then show ?case by simp
next
  case (Cons a s)
  then show ?case by (cases m) (auto)
qed

lemma sublist_Split:
  assumes "sep \<notin> set m"
  shows "sublist m s = list_ex (sublist m) (Split s sep)"
  using assms
proof (induction s)
  case Nil then show ?case by simp
next
  case (Cons a s)
  have IH: "sublist m s = list_ex (sublist m) (Split s sep)"
    using Cons by blast
  have unf: "sublist m (a # s) = (prefix m (a # s) \<or> sublist m s)"
    by (rule sublist_Cons_right)
  show ?case
  proof (cases "a = sep")
    case True
    have p: "prefix m (sep # s) = (m = [])"
      using Cons.prems by (cases m) auto
    have "list_ex (sublist m) (Split (a # s) sep) = (sublist m [] \<or> list_ex (sublist m) (Split s sep))"
      using True by simp
    also have "\<dots> = (m = [] \<or> sublist m s)"
      using IH by simp
    finally show ?thesis using unf p True by simp
  next
    case False
    have s: "sublist m s = (sublist m (hd (Split s sep)) \<or> list_ex (sublist m) (tl (Split s sep)))"
      using IH list_ex_hd_tl[of "Split s sep" "sublist m"] by simp
    have p: "prefix m (a # s) = prefix m (a # hd (Split s sep))"
      using prefix_takeWhile[OF Cons.prems, of "a # s"] False by (simp add: hd_Split)
    have "list_ex (sublist m) (Split (a # s) sep) =
            (sublist m (a # hd (Split s sep)) \<or> list_ex (sublist m) (tl (Split s sep)))"
      using False by (simp add: Split_Cons del: Split.simps(2))
    also have "\<dots> = (prefix m (a # hd (Split s sep)) \<or> sublist m (hd (Split s sep))
                       \<or> list_ex (sublist m) (tl (Split s sep)))"
      by (simp only: sublist_Cons_right[of m a "hd (Split s sep)"] disj_assoc)
    finally show ?thesis using unf p s by simp
  qed
qed

lemma Contains_Split:
  "sep \<notin> set m \<Longrightarrow> Contains s m = list_ex (\<lambda>line. Contains line m) (Split s sep)"
  using sublist_Split[of sep m s] by (simp add: Contains_sublist)

lemma nl_notin_sudo_prompt: "nl \<notin> set sudo_prompt"
  by (simp add: sudo_prompt_def)

lemma Join_Cons: "Join (l # ls) sep = (if ls = [] then l else l @ sep @ Join ls sep)"
  by (cases ls) auto

lemma Join_Split: "Join (Split s sep) [sep] = s"
proof (induction s)
  case Nil then show ?case by simp
next
  case (Cons a s)
  obtain l ls where L: "Split s sep = l # ls" by (cases "Split s sep") auto
  show ?case using Cons L by (auto simp: Join_Cons)
qed

lemma length_Split: "length (Split s sep) = Suc (length (filter (\<lambda>c. c = sep) s))"
  by (induction s) (auto split: list.splits)

lemma Split_two_lines: "(2 \<le> length (Split s sep)) = (sep \<in> set s)"
proof -
  have "(filter (\<lambda>c. c = sep) s \<noteq> []) = (sep \<in> set s)"
    by (auto simp: filter_empty_conv)
  then show ?thesis by (cases "filter (\<lambda>c. c = sep) s") (auto simp: length_Split)
qed

lemma tl_Split: "Join (tl (Split s sep)) [sep] = drop 1 (dropWhile (\<lambda>c. c \<noteq> sep) s)"
proof (induction s)
  case Nil then show ?case by simp
next
  case (Cons a s)
  show ?case
  proof (cases "a = sep")
    case True
    then show ?thesis by (simp add: Join_Split)
  next
    case False
    then show ?thesis using Cons by (simp add: Split_Cons del: Split.simps(2))
  qed
qed

section \<open>The scrubbing step\<close>

text \<open>
  Claim C4.  Scrubbing splits the captured output into lines.  If some line contains the
  sudo prompt marker, exactly the lines containing the marker or the password are dropped
  and the others keep their order; otherwise, if the first line contains the password,
  only that first line is dropped; the lines left, joined by newlines, are the new output.
  (The code tests the whole output for the marker; the marker has no newline in it, so
  that is the same as testing the lines.)  The two forms of the specification:
  \<^verbatim>\<open>"[sudo] password for alice:\nsecret123\nhello\n"\<close> and \<^verbatim>\<open>"secret123\nhello\n"\<close>,
  both with password \<^verbatim>\<open>"secret123"\<close>, scrub to \<^verbatim>\<open>"hello\n"\<close>.
\<close>

theorem scrub_by_lines:
  "extractSudoPasswordFromOutput stdout password =
     Join (if list_ex (\<lambda>line. Contains line sudo_prompt) (Split stdout nl)
           then filter (\<lambda>line. \<not> Contains line password \<and> \<not> Contains line sudo_prompt)
                  (Split stdout nl)
           else if Contains (hd (Split stdout nl)) password
                then tl (Split stdout nl)
                else Split stdout nl) [nl]
   \<and> extractSudoPasswordFromOutput
         (''[sudo] password for alice:'' @ [nl] @ ''secret123'' @ [nl] @ ''hello'' @ [nl])
         ''secret123'' = ''hello'' @ [nl]
   \<and> extractSudoPasswordFromOutput (''secret123'' @ [nl] @ ''hello'' @ [nl]) ''secret123''
       = ''hello'' @ [nl]"
proof (intro conjI)
  show "extractSudoPasswordFromOutput stdout password =
     Join (if list_ex (\<lambda>line. Contains line sudo_prompt) (Split stdout nl)
           then filter (\<lambda>line. \<not> Contains line password \<and> \<not> Contains line sudo_prompt)
                  (Split stdout nl)
           else if Contains (hd (Split stdout nl)) password
                then tl (Split stdout nl)
                else Split stdout nl) [nl]"
    using Contains_Split[OF nl_notin_sudo_prompt, of stdout]
    by (simp add: extractSudoPasswordFromOutput_def Let_def)
  show "extractSudoPasswordFromOutput
         (''[sudo] password for alice:'' @ [nl] @ ''secret123'' @ [nl] @ ''hello'' @ [nl])
         ''secret123'' = ''hello'' @ [nl]"
    by code_simp
  show "extractSudoPasswordFromOutput (''secret123'' @ [nl] @ ''hello'' @ [nl]) ''secret123''
       = ''hello'' @ [nl]"
    by code_simp
qed

text \<open>
  Claim C10.  With the empty string as the stored sudo password the substring test holds
  of every line.  So scrubbing leaves the empty output whenever the prompt marker occurs
  anywhere in the output, and otherwise it always drops the first line, whatever it holds:
  what is left is the output after its first newline (nothing, when there is no newline).
\<close>

theorem scrub_empty_password:
  "Contains line []
   \<and> extractSudoPasswordFromOutput stdout [] =
       (if Contains stdout sudo_prompt then [] else Join (tl (Split stdout nl)) [nl])
   \<and> Join (tl (Split stdout nl)) [nl] = drop 1 (dropWhile (\<lambda>c. c \<noteq> nl) stdout)"
  by (simp add: extractSudoPasswordFromOutput_def tl_Split)

section \<open>The connection registry\<close>

lemma find_connection_None:
  "(find_connection conns n = None) = (n \<notin> set (map (\<lambda>c. Name (host c)) conns))"
  by (auto simp: find_connection_def find_None_iff)

lemma find_connection_names:
  "(find_connection (connections service) n = None) = (n \<notin> set (names service))"
  by (simp add: find_connection_None names_def)

lemma OpenConnection_registered:
  "Name h \<in> set (names service) \<Longrightarrow> OpenConnection w service h = (None, service, w)"
  using find_connection_names[of service "Name h"]
  by (auto simp: OpenConnection_def split: option.splits)

lemma OpenConnection_names:
  "names (fst (snd (OpenConnection w service h))) = names service
   \<or> (Name h \<notin> set (names service)
       \<and> names (fst (snd (OpenConnection w service h))) = names service @ [Name h])"
  using find_connection_names[of service "Name h"]
  by (auto simp: OpenConnection_def names_def split: option.splits sum.splits prod.splits)

lemma OpenConnection_distinct:
  "distinct (names service) \<Longrightarrow> distinct (names (fst (snd (OpenConnection w service h))))"
  using OpenConnection_names[of w service h] by auto

lemma NewSSHService_loop_distinct:
  "distinct (map (\<lambda>c. Name (host c)) conns) \<Longrightarrow>
   distinct (map (\<lambda>c. Name (host c)) (fst (NewSSHService_loop w conns hosts)))"
proof (induction hosts arbitrary: w conns)
  case Nil
  then show ?case by simp
next
  case (Cons h hosts)
  show ?case
  proof (cases "find_connection conns (Name h)")
    case (Some found)
    then show ?thesis using Cons by simp
  next
    case None
    then have fresh: "Name h \<notin> set (map (\<lambda>c. Name (host c)) conns)"
      by (simp add: find_connection_None)
    obtain r w1 where C: "createSSHClient w h = (r, w1)"
      by (cases "createSSHClient w h")
    show ?thesis
    proof (cases r)
      case (Inl e)
      then show ?thesis using None C Cons by simp
    next
      case (Inr cl)
      have "distinct (map (\<lambda>c. Name (host c)) (conns @ [\<lparr>host = h, client = cl\<rparr>]))"
        using Cons.prems fresh by simp
      then show ?thesis using None C Inr Cons.IH by simp
    qed
  qed
qed

lemma NewSSHService_distinct: "distinct (names (fst (NewSSHService w hosts)))"
  using NewSSHService_loop_distinct[of "[]" w hosts]
  by (cases "NewSSHService_loop w [] hosts") (simp add: NewSSHService_def names_def)

lemma apply_operation_distinct:
  "distinct (names service) \<Longrightarrow> distinct (names (fst (apply_operation w service op)))"
proof (cases op)
  case (OpOpen h)
  assume "distinct (names service)"
  then show ?thesis using OpOpen OpenConnection_distinct[of service w h]
    by (cases "OpenConnection w service h") simp
next
  case (OpClose c)
  assume "distinct (names service)"
  then show ?thesis using OpClose by (simp add: CloseConnection_def)
next
  case (OpExecute command server)
  assume "distinct (names service)"
  then show ?thesis using OpExecute
    by (cases "ExecuteCommand w service command server") simp
qed

lemma apply_operations_distinct:
  "distinct (names service) \<Longrightarrow> distinct (names (fst (apply_operations w service ops)))"
proof (induction ops arbitrary: w service)
  case Nil
  then show ?case by simp
next
  case (Cons op ops)
  obtain s1 w1 where A: "apply_operation w service op = (s1, w1)"
    by (cases "apply_operation w service op")
  have "distinct (names s1)"
    using apply_operation_distinct[OF Cons.prems, of w op] A by simp
  then show ?case using Cons.IH A by simp
qed

lemma dials_log_event: "dials (log_event w ev) = dials w @ (if is_dial ev then [ev] else [])"
  by (simp add: dials_def log_event_def)

lemma ReadFile_dials: "dials (snd (ReadFile w path)) = dials w"
  by (auto simp: ReadFile_def FileExists_def dials_log_event split: sum.splits bool.splits)

lemma ReadFile_error_nil: "ReadFile w path = ((keyFile, Some e), w1) \<Longrightarrow> keyFile = []"
  by (auto simp: ReadFile_def FileExists_def split: sum.splits bool.splits if_splits)

lemma ssh_Dial_dials: "dials (snd (ssh_Dial w addr conf)) = dials w @ [EvDial addr conf]"
  by (simp add: ssh_Dial_def dials_log_event)


lemma createSSHClient_success:
  assumes "createSSHClient w h = (Inr cl, w1)"
  shows "length (dials w1) = Suc (length (dials w))"
proof (cases "PrivateKeyPath h = []")
  case True
  then have "ssh_Dial w (GetFullAddress h)
      (if Password h = [] then \<lparr>conf_User = User h, HostKeyCallback = InsecureIgnoreHostKey, Auth = [], Timeout = 10\<rparr>
       else \<lparr>conf_User = User h, HostKeyCallback = InsecureIgnoreHostKey, Auth = [AuthPassword (Password h)], Timeout = 10\<rparr>) = (Inr cl, w1)"
    using assms by (simp add: createSSHClient_def Let_def split: if_splits)
  then show ?thesis
    by (metis ssh_Dial_dials length_append_singleton snd_conv)
next
  case False
  obtain keyFile err wr where R: "ReadFile w (PrivateKeyPath h) = ((keyFile, err), wr)"
    by (metis surj_pair)
  have d: "dials wr = dials w" using ReadFile_dials[of w "PrivateKeyPath h"] R by simp
  from assms False R obtain conf where "ssh_Dial wr (GetFullAddress h) conf = (Inr cl, w1)"
    by (auto simp: createSSHClient_def Let_def split: if_splits option.splits sum.splits bool.splits)
  then have "dials w1 = dials wr @ [EvDial (GetFullAddress h) conf]"
    using ssh_Dial_dials[of wr "GetFullAddress h" conf] by simp
  then show ?thesis using d by simp
qed

text \<open>
  Claim C6.  After the bulk construction and any sequence of open, close and execute
  operations, in whatever world each of them runs, no two connections of the registry
  have the same server name.  Opening a name that is already connected returns success,
  not an error, and changes neither the registry nor the world: no second entry, no dial.
\<close>

theorem registry_names_distinct:
  "distinct (names (fst (apply_operations w1 (fst (NewSSHService w hosts)) ops)))
   \<and> (Name h \<in> set (names service) \<longrightarrow>
        OpenConnection w2 service h = (None, service, w2))"
  using apply_operations_distinct[OF NewSSHService_distinct]
  by (simp add: OpenConnection_registered)

text \<open>
  The invariant at work: two servers of one name handed to the constructor, then the name
  opened again in a world where no dial can succeed.
\<close>

theorem registry_names_distinct_witness:
  "Name example_server \<in> set (names (fst (NewSSHService (answering_world ([], [], None)) [example_server])))
   \<and> distinct (names (fst (apply_operations unreachable_world
          (fst (NewSSHService (answering_world ([], [], None)) [example_server, example_server]))
          [OpOpen example_server, OpExecute ''true'' example_server])))
   \<and> OpenConnection unreachable_world
         (fst (NewSSHService (answering_world ([], [], None)) [example_server])) example_server
       = (None, fst (NewSSHService (answering_world ([], [], None)) [example_server]),
          unreachable_world)"
proof -
  have h: "Name example_server \<in> set (names (fst (NewSSHService (answering_world ([], [], None)) [example_server])))"
    by code_simp
  show ?thesis
    using h registry_names_distinct
      [of unreachable_world "answering_world ([], [], None)" "[example_server, example_server]"
          "[OpOpen example_server, OpExecute ''true'' example_server]" example_server
          "fst (NewSSHService (answering_world ([], [], None)) [example_server])"
          unreachable_world]
    by simp
qed

text \<open>
  Claim C7, as amended.  For a server with a non-empty private-key path whose name is not
  yet registered, open fails whenever the key file cannot be read or the bytes read do not
  parse as a signing key, whether or not the server has a password: \<^verbatim>\<open>createSSHClient\<close>
  returns an error without dialling, and \<^verbatim>\<open>OpenConnection\<close> returns that error and
  registers nothing.  (With a password the failed read is passed over, and it is the
  parser, given no bytes, that fails.)
\<close>

theorem key_failure_fails_open:
  assumes "PrivateKeyPath h \<noteq> []"
    and "ReadFile w (PrivateKeyPath h) = ((keyFile, err), w1)"
    and "(\<exists>e. err = Some e) \<or> (\<exists>e. ssh_ParsePrivateKey w1 keyFile = Inl e)"
  shows "\<exists>e. createSSHClient w h = (Inl e, w1) \<and> dials w1 = dials w
           \<and> (Name h \<notin> set (names service) \<longrightarrow>
                OpenConnection w service h = (Some e, service, w1))"
proof -
  have d: "dials w1 = dials w"
    using ReadFile_dials[of w "PrivateKeyPath h"] assms(2) by simp
  have parse: "\<exists>e. ssh_ParsePrivateKey w1 keyFile = Inl e"
  proof (cases err)
    case None
    then show ?thesis using assms(3) by simp
  next
    case (Some e)
    then have "keyFile = []" using ReadFile_error_nil assms(2) by blast
    then show ?thesis by (simp add: ssh_ParsePrivateKey_def)
  qed
  then obtain e' where P: "ssh_ParsePrivateKey w1 keyFile = Inl e'" by blast
  have "\<exists>e. createSSHClient w h = (Inl e, w1)"
    using assms(1,2) P
    by (auto simp: createSSHClient_def Let_def split: option.splits bool.splits)
  then obtain e where C: "createSSHClient w h = (Inl e, w1)" by blast
  have "Name h \<notin> set (names service) \<longrightarrow> OpenConnection w service h = (Some e, service, w1)"
    using C find_connection_names[of service "Name h"] by (auto simp: OpenConnection_def)
  then show ?thesis using C d by blast
qed

text \<open>The server has a password and its key file does not exist: open fails all the same.\<close>

theorem key_failure_fails_open_witness:
  "PrivateKeyPath example_server \<noteq> [] \<and> Password example_server = ''hunter2''
   \<and> ReadFile keyless_world (PrivateKeyPath example_server)
       = (([], Some FileNotFoundError), log_event keyless_world (EvStat (PrivateKeyPath example_server)))
   \<and> Name example_server \<notin> set (names empty_service)
   \<and> OpenConnection keyless_world empty_service example_server
       = (Some (OtherError ''ssh: no key found''), empty_service,
          log_event keyless_world (EvStat (PrivateKeyPath example_server)))"
proof -
  have p: "PrivateKeyPath example_server \<noteq> []" by (simp add: example_server_def)
  have r: "ReadFile keyless_world (PrivateKeyPath example_server)
       = (([], Some FileNotFoundError), log_event keyless_world (EvStat (PrivateKeyPath example_server)))"
    by (simp add: ReadFile_def FileExists_def keyless_world_def answering_world_def)
  have n: "Name example_server \<notin> set (names empty_service)"
    by (simp add: names_def empty_service_def)
  have c: "createSSHClient keyless_world example_server
      = (Inl (OtherError ''ssh: no key found''), log_event keyless_world (EvStat (PrivateKeyPath example_server)))"
    using r p by (simp add: createSSHClient_def ssh_ParsePrivateKey_def example_server_def)
  show ?thesis
    using key_failure_fails_open[OF p r, of empty_service] n c p r
    by (auto simp: example_server_def)
qed

text \<open>
  Claim C7 as first stated fails for a name that is already registered: the lookup finds
  the connection and open returns success before any key is read, although the key file
  of the server does not exist.
\<close>

theorem key_failure_fails_open_counterexample:
  "PrivateKeyPath example_server \<noteq> []
   \<and> fst (ReadFile keyless_world (PrivateKeyPath example_server)) = ([], Some FileNotFoundError)
   \<and> OpenConnection keyless_world
         \<lparr>connections = [\<lparr>host = example_server, client = Client 2\<rparr>]\<rparr> example_server
       = (None, \<lparr>connections = [\<lparr>host = example_server, client = Client 2\<rparr>]\<rparr>,
          keyless_world)"
  by (simp add: OpenConnection_def find_connection_def ReadFile_def FileExists_def
        keyless_world_def answering_world_def example_server_def)

text \<open>
  Claim C5, as amended.  For a server whose name is not yet registered and whose first
  open succeeds: the second open returns success and changes neither the registry nor the
  world, the two calls together dial exactly once, and the registry holds exactly one
  connection of that name.
\<close>

theorem open_twice_once:
  assumes "OpenConnection w service h = (None, service1, w1)"
    and "Name h \<notin> set (names service)"
  shows "OpenConnection w1 service1 h = (None, service1, w1)
         \<and> open_twice w service h = (None, service1, 1)
         \<and> length (filter (\<lambda>c. Name (host c) = Name h) (connections service1)) = 1"
proof -
  have F: "find_connection (connections service) (Name h) = None"
    using assms(2) by (simp add: find_connection_names)
  then obtain cl where C: "createSSHClient w h = (Inr cl, w1)"
    and S: "service1 = service\<lparr>connections := connections service @ [\<lparr>host = h, client = cl\<rparr>]\<rparr>"
    using assms(1) by (auto simp: OpenConnection_def split: prod.splits sum.splits)
  have reg: "Name h \<in> set (names service1)" using S by (simp add: names_def)
  have second: "OpenConnection w1 service1 h = (None, service1, w1)"
    using reg by (rule OpenConnection_registered)
  have d: "length (dials w1) = Suc (length (dials w))"
    using C by (rule createSSHClient_success)
  have old: "filter (\<lambda>c. Name (host c) = Name h) (connections service) = []"
    using assms(2) by (force simp: names_def filter_empty_conv)
  have one: "length (filter (\<lambda>c. Name (host c) = Name h) (connections service1)) = 1"
    using S old by simp
  show ?thesis using second d one assms(1) by (simp add: open_twice_def)
qed

text \<open>A server that answers, opened twice from the empty registry.\<close>

theorem open_twice_once_witness:
  "Name example_server \<notin> set (names empty_service)
   \<and> fst (OpenConnection (answering_world ([], [], None)) empty_service example_server) = None
   \<and> open_twice (answering_world ([], [], None)) empty_service example_server
       = (None, \<lparr>connections = [\<lparr>host = example_server, client = Client 2\<rparr>]\<rparr>, 1)"
proof -
  have n: "Name example_server \<notin> set (names empty_service)"
    by (simp add: names_def empty_service_def)
  obtain r s1 w1 where O: "OpenConnection (answering_world ([], [], None)) empty_service example_server = (r, s1, w1)"
    by (metis surj_pair)
  have r: "r = None" and s: "s1 = \<lparr>connections = [\<lparr>host = example_server, client = Client 2\<rparr>]\<rparr>"
    using O by (auto simp: OpenConnection_def find_connection_def empty_service_def createSSHClient_def
        ReadFile_def FileExists_def ssh_ParsePrivateKey_def ssh_Dial_def log_event_def
        answering_world_def example_server_def)
  show ?thesis using open_twice_once[OF O[unfolded r] n] n O r s by simp
qed

text \<open>
  Claim C5 as first stated fails for some servers.  When no host answers, both calls dial
  and both fail, so there are two dials and no registered connection, and the second call
  returns an error; when the name is registered beforehand, no call dials at all.
\<close>

theorem open_twice_counterexample:
  "open_twice unreachable_world empty_service example_server
     = (Some (OtherError ''dial tcp: i/o timeout''), empty_service, 2)
   \<and> open_twice (answering_world ([], [], None))
        \<lparr>connections = [\<lparr>host = example_server, client = Client 2\<rparr>]\<rparr> example_server
     = (None, \<lparr>connections = [\<lparr>host = example_server, client = Client 2\<rparr>]\<rparr>, 0)"
  by (simp add: open_twice_def OpenConnection_def find_connection_def empty_service_def
        createSSHClient_def ReadFile_def FileExists_def ssh_ParsePrivateKey_def ssh_Dial_def
        log_event_def dials_def unreachable_world_def answering_world_def example_server_def)

section \<open>The executor and the resolver\<close>

lemma extractExitCode_None: "extractExitCode None = 0"
  by simp

lemma ExecuteCommand_no_error:
  assumes "ExecuteCommand w service cmd server = ((res, None), server1, w2)"
  shows "\<exists>command. res = Some command \<and> ExitCode command = 0"
  using assms
  by (auto simp: ExecuteCommand_def spawnSession_def Let_def
           split: option.splits sum.splits prod.splits)

lemma getFile_reaches_parse:
  assumes "HostConnection data = Some hc"
    and "OpenConnection w service (getFile_server hc) = (None, service1, w1)"
    and "ExecuteCommand w1 service1 (combinedCmd data) (getFile_server hc)
           = ((Some command, None), server1, w2)"
  shows "getFile w service data
           = (fst (getFile_parse data hc command), snd (getFile_parse data hc command),
              service1, w2)"
  using assms by (simp add: getFile_def split: prod.splits)

lemma getFile_returns_executor_error:
  assumes "HostConnection data = Some hc"
    and "OpenConnection w service (getFile_server hc) = (None, service1, w1)"
    and "ExecuteCommand w1 service1 (combinedCmd data) (getFile_server hc)
           = ((res, Some e), server1, w2)"
  shows "getFile w service data = (Returned (Some e), data, service1, w2)"
  using assms by (simp add: getFile_def split: option.splits)

lemma getFile_success_path:
  assumes "getFile w service data = (Returned None, data1, service1, w2)"
  shows "\<exists>hc w1 command server1.
           HostConnection data = Some hc
           \<and> OpenConnection w service (getFile_server hc) = (None, service1, w1)
           \<and> ExecuteCommand w1 service1 (combinedCmd data) (getFile_server hc)
                = ((Some command, None), server1, w2)
           \<and> getFile_parse data hc command = (Returned None, data1)"
  using assms
  by (auto simp: getFile_def Let_def split: option.splits prod.splits)

lemma getFile_parse_exit0:
  assumes "ExitCode command = 0"
  shows "getFile_parse data hc command =
           (if nl \<in> set (Stdout command)
            then (Returned None,
                  data\<lparr>Id' := StringValue (ValueString (hc_Host hc) @ ''-''
                                  @ TrimSpace (Split (Stdout command) nl ! 1)),
                       Content := StringValue
                         (if ValueBool (Sensitive data) then []
                          else Join (drop 2 (Split (Stdout command) nl)) [nl]),
                       SensitiveContent := StringValue
                         (if ValueBool (Sensitive data)
                          then Join (drop 2 (Split (Stdout command) nl)) [nl] else [])\<rparr>)
            else (Panicked IndexOutOfRange, data))"
proof -
  have "(length (Split (Stdout command) nl) \<le> 1) = (nl \<notin> set (Stdout command))"
    using Split_two_lines[of "Stdout command" nl] by auto
  then show ?thesis using assms by (simp add: getFile_parse_def Let_def)
qed


lemma trace_log_event: "trace (log_event w ev) = trace w @ [ev]"
  by (simp add: log_event_def)

lemma password_dial_is_dial: "password_dial ev \<Longrightarrow> is_dial ev"
  by (cases ev) auto

lemma ReadFile_trace:
  "\<exists>evs. trace (snd (ReadFile w path)) = trace w @ evs \<and> \<not> list_ex is_dial evs"
  by (auto simp: ReadFile_def FileExists_def trace_log_event split: sum.splits bool.splits)

lemma createSSHClient_trace:
  assumes "Password h = []"
  shows "\<exists>evs. trace (snd (createSSHClient w h)) = trace w @ evs
               \<and> \<not> list_ex password_dial evs"
proof (cases "PrivateKeyPath h = []")
  case True
  then show ?thesis using assms
    by (simp add: createSSHClient_def ssh_Dial_def trace_log_event Let_def)
next
  case False
  obtain keyFile err wr where R: "ReadFile w (PrivateKeyPath h) = ((keyFile, err), wr)"
    by (metis surj_pair)
  obtain evs where E: "trace wr = trace w @ evs" and N: "\<not> list_ex is_dial evs"
    using ReadFile_trace[of w "PrivateKeyPath h"] R by auto
  have N': "\<not> list_ex password_dial evs"
    using N password_dial_is_dial by (auto simp: list_ex_iff)
  show ?thesis
  proof (cases "snd (createSSHClient w h) = wr")
    case True
    then show ?thesis using E N' by auto
  next
    case other: False
    then obtain sg where
      "createSSHClient w h = ssh_Dial wr (GetFullAddress h)
         \<lparr>conf_User = User h, HostKeyCallback = InsecureIgnoreHostKey,
          Auth = [AuthPublicKeys sg], Timeout = 10\<rparr>"
      using False R assms
      by (auto simp: createSSHClient_def Let_def split: option.splits sum.splits bool.splits)
    then have "trace (snd (createSSHClient w h)) = trace w @ (evs @ [EvDial (GetFullAddress h)
         \<lparr>conf_User = User h, HostKeyCallback = InsecureIgnoreHostKey,
          Auth = [AuthPublicKeys sg], Timeout = 10\<rparr>])"
      using E by (simp add: ssh_Dial_def trace_log_event)
    moreover have "\<not> list_ex password_dial (evs @ [EvDial (GetFullAddress h)
         \<lparr>conf_User = User h, HostKeyCallback = InsecureIgnoreHostKey,
          Auth = [AuthPublicKeys sg], Timeout = 10\<rparr>])"
      using N' by simp
    ultimately show ?thesis by blast
  qed
qed

lemma OpenConnection_trace:
  assumes "Password h = []"
  shows "\<exists>evs. trace (snd (snd (OpenConnection w service h))) = trace w @ evs
               \<and> \<not> list_ex password_dial evs"
proof (cases "find_connection (connections service) (Name h)")
  case (Some found)
  then show ?thesis by (simp add: OpenConnection_def)
next
  case None
  then have "snd (snd (OpenConnection w service h)) = snd (createSSHClient w h)"
    by (simp add: OpenConnection_def split: prod.splits sum.splits)
  then show ?thesis using createSSHClient_trace[OF assms, of w] by simp
qed

lemma ExecuteCommand_trace:
  "\<exists>evs. trace (snd (snd (ExecuteCommand w service cmd server))) = trace w @ evs
         \<and> \<not> list_ex password_dial evs"
  by (auto simp: ExecuteCommand_def spawnSession_def Let_def trace_log_event
           split: option.splits sum.splits prod.splits)

lemma getFile_trace:
  "\<exists>evs. trace (snd (snd (snd (getFile w service data)))) = trace w @ evs
         \<and> \<not> list_ex password_dial evs"
proof (cases "HostConnection data")
  case None
  then show ?thesis by (simp add: getFile_def)
next
  case (Some hc)
  have P: "Password (getFile_server hc) = []" by (simp add: getFile_server_def)
  obtain r service1 w1 where O: "OpenConnection w service (getFile_server hc) = (r, service1, w1)"
    by (metis surj_pair)
  obtain evs1 where E1: "trace w1 = trace w @ evs1" and N1: "\<not> list_ex password_dial evs1"
    using OpenConnection_trace[OF P, of w service] O by auto
  show ?thesis
  proof (cases r)
    case (Some e)
    then show ?thesis using \<open>HostConnection data = Some hc\<close> O E1 N1
      by (auto simp: getFile_def)
  next
    case None
    obtain res server1 w2 where X: "ExecuteCommand w1 service1 (combinedCmd data) (getFile_server hc) = (res, server1, w2)"
      by (metis surj_pair)
    obtain evs2 where E2: "trace w2 = trace w1 @ evs2" and N2: "\<not> list_ex password_dial evs2"
      using ExecuteCommand_trace[of w1 service1 "combinedCmd data" "getFile_server hc"] X by auto
    have "snd (snd (snd (getFile w service data))) = w2"
      using \<open>HostConnection data = Some hc\<close> O None X
      by (auto simp: getFile_def split: option.splits prod.splits)
    moreover have "trace w2 = trace w @ (evs1 @ evs2)" using E1 E2 by simp
    moreover have "\<not> list_ex password_dial (evs1 @ evs2)" using N1 N2 by simp
    ultimately show ?thesis by metis
  qed
qed

text \<open>The definitions a run of the resolver in a concrete world unfolds.\<close>

lemmas run_defs =
  getFile_def getFile_server_def combinedCmd_def OpenConnection_def ExecuteCommand_def
  spawnSession_def find_connection_def createSSHClient_def ReadFile_def FileExists_def
  ssh_ParsePrivateKey_def ssh_Dial_def log_event_def GetFullAddress_def
  answering_world_def example_data_def example_connection_def empty_service_def

lemmas scrub_defs = extractSudoPasswordFromOutput_def sudo_prompt_def

text \<open>
  Claim C1, at its own example: the combined command exits with status 2 and writes
  \<^verbatim>\<open>"No such file"\<close> to standard error.  \<^verbatim>\<open>session.Run\<close> then returns an
  \<^verbatim>\<open>*ssh.ExitError\<close>, the executor returns it beside the command (which carries code 2
  and the standard error), and \<^verbatim>\<open>getFile\<close> returns that error at its first test: the
  \<^verbatim>\<open>ExitCodeError\<close> with the code and the standard error is never built.  The model is
  left as it was.
\<close>

theorem exit_status_error_returned_raw:
  "fst (ExecuteCommand
          (snd (snd (OpenConnection
                       (answering_world ([], ''No such file'', Some (SSHExitError 2)))
                       empty_service (getFile_server example_connection))))
          (fst (snd (OpenConnection
                       (answering_world ([], ''No such file'', Some (SSHExitError 2)))
                       empty_service (getFile_server example_connection))))
          (combinedCmd (example_data False)) (getFile_server example_connection))
     = (Some \<lparr>Command = combinedCmd (example_data False), Stdout = [],
               Stderr = ''No such file'', ExitCode = 2\<rparr>,
        Some (SSHExitError 2))
   \<and> fst (getFile (answering_world ([], ''No such file'', Some (SSHExitError 2)))
            empty_service (example_data False))
       = Returned (Some (SSHExitError 2))
   \<and> fst (getFile (answering_world ([], ''No such file'', Some (SSHExitError 2)))
            empty_service (example_data False))
       \<noteq> Returned (Some (ExitCodeError 2 ''No such file''))
   \<and> fst (snd (getFile (answering_world ([], ''No such file'', Some (SSHExitError 2)))
                 empty_service (example_data False)))
       = example_data False"
  by (simp add: run_defs scrub_defs Let_def)

text \<open>
  Claim C8.  The server the resolver builds has the empty password, whatever the
  connection block's password attribute holds, port 22, and its address as its name; it is
  the server handed to \<^verbatim>\<open>OpenConnection\<close>; and no dial made during a call of the
  resolver offers password authentication.
\<close>

theorem resolver_server_descriptor:
  "Password (getFile_server hc) = []
   \<and> Port (getFile_server hc) = 22
   \<and> Name (getFile_server hc) = Address (getFile_server hc)
   \<and> (HostConnection data = Some hc \<longrightarrow>
        fst (snd (snd (getFile w service data)))
          = fst (snd (OpenConnection w service (getFile_server hc))))
   \<and> (\<exists>evs. trace (snd (snd (snd (getFile w service data)))) = trace w @ evs
             \<and> \<not> list_ex password_dial evs)"
proof -
  have "HostConnection data = Some hc \<longrightarrow>
        fst (snd (snd (getFile w service data)))
          = fst (snd (OpenConnection w service (getFile_server hc)))"
    by (auto simp: getFile_def Let_def split: option.splits prod.splits)
  then show ?thesis using getFile_trace[of w service data]
    by (simp add: getFile_server_def)
qed

text \<open>A connection block with a password: the one dial of the call offers the key only.\<close>

theorem resolver_server_descriptor_witness:
  "HostConnection (example_data False) = Some example_connection
   \<and> hc_Password example_connection = StringValue ''hunter2''
   \<and> Password (getFile_server example_connection) = []
   \<and> connections (fst (snd (snd (getFile (answering_world ([], [], None)) empty_service
                                     (example_data False)))))
       = [\<lparr>host = getFile_server example_connection, client = Client 2\<rparr>]
   \<and> filter is_dial (trace (snd (snd (snd (getFile (answering_world ([], [], None))
                                               empty_service (example_data False))))))
       = [EvDial ''10.0.0.5:22''
            \<lparr>conf_User = ''alice'', HostKeyCallback = InsecureIgnoreHostKey,
             Auth = [AuthPublicKeys (Signer ''KEY'')], Timeout = 10\<rparr>]"
proof -
  have h: "HostConnection (example_data False) = Some example_connection"
    by (simp add: example_data_def)
  have o: "connections (fst (snd (OpenConnection (answering_world ([], [], None)) empty_service
                                   (getFile_server example_connection))))
           = [\<lparr>host = getFile_server example_connection, client = Client 2\<rparr>]"
    by (simp add: run_defs Let_def)
  have t: "filter is_dial (trace (snd (snd (snd (getFile (answering_world ([], [], None))
                                               empty_service (example_data False))))))
       = [EvDial ''10.0.0.5:22''
            \<lparr>conf_User = ''alice'', HostKeyCallback = InsecureIgnoreHostKey,
             Auth = [AuthPublicKeys (Signer ''KEY'')], Timeout = 10\<rparr>]"
    by (simp add: run_defs Let_def Itoa_def extractSudoPasswordFromOutput_def sudo_prompt_def
          getFile_parse_def)
  show ?thesis
    using resolver_server_descriptor
      [of example_connection "example_data False" "answering_world ([], [], None)" empty_service]
      h o t
    by (simp add: example_connection_def)
qed

text \<open>
  Claim C9, as amended.  The parse step reads element 1 of the split output with no test
  of the length.  For every execution that returns no error (so that the parse step is
  reached) and whose scrubbed output has no newline, the read is out of range and the
  call panics instead of returning an error; the call returns success exactly when the
  output splits into at least two lines.
\<close>

theorem parse_panics_without_second_line:
  assumes "HostConnection data = Some hc"
    and "OpenConnection w service (getFile_server hc) = (None, service1, w1)"
    and "ExecuteCommand w1 service1 (combinedCmd data) (getFile_server hc)
           = ((Some command, None), server1, w2)"
  shows "(nl \<notin> set (Stdout command) \<longrightarrow>
            getFile w service data = (Panicked IndexOutOfRange, data, service1, w2))
         \<and> (fst (getFile w service data) = Returned None \<longrightarrow>
              2 \<le> length (Split (Stdout command) nl))
         \<and> (2 \<le> length (Split (Stdout command) nl) \<longrightarrow>
              fst (getFile w service data) = Returned None)"
proof -
  have z: "ExitCode command = 0"
    using ExecuteCommand_no_error[OF assms(3)] by simp
  have g: "getFile w service data
           = (fst (getFile_parse data hc command), snd (getFile_parse data hc command),
              service1, w2)"
    using assms by (rule getFile_reaches_parse)
  show ?thesis
    using g getFile_parse_exit0[OF z, of data hc] Split_two_lines[of "Stdout command" nl]
    by (cases "nl \<in> set (Stdout command)") simp_all
qed

text \<open>The empty output: the command printed nothing, and the resolver panics.\<close>

theorem parse_panics_without_second_line_witness:
  "HostConnection (example_data False) = Some example_connection
   \<and> fst (OpenConnection (answering_world ([], [], None)) empty_service
            (getFile_server example_connection)) = None
   \<and> fst (fst (ExecuteCommand
         (snd (snd (OpenConnection (answering_world ([], [], None)) empty_service
                      (getFile_server example_connection))))
         (fst (snd (OpenConnection (answering_world ([], [], None)) empty_service
                      (getFile_server example_connection))))
         (combinedCmd (example_data False)) (getFile_server example_connection)))
       = Some \<lparr>Command = combinedCmd (example_data False), Stdout = [], Stderr = [],
               ExitCode = 0\<rparr>
   \<and> fst (getFile (answering_world ([], [], None)) empty_service (example_data False))
       = Panicked IndexOutOfRange"
proof -
  let ?w = "answering_world ([], [], None)"
  let ?h = "getFile_server example_connection"
  let ?c = "\<lparr>Command = combinedCmd (example_data False), Stdout = [], Stderr = [],
               ExitCode = 0\<rparr>"
  have h: "HostConnection (example_data False) = Some example_connection"
    by (simp add: example_data_def)
  obtain service1 w1 where
    o: "OpenConnection ?w empty_service ?h = (None, service1, w1)"
    by (simp add: run_defs Let_def)
  obtain server1 w2 where
    x: "ExecuteCommand w1 service1 (combinedCmd (example_data False)) ?h
          = ((Some ?c, None), server1, w2)"
    using o
    by (auto simp: run_defs Let_def extractSudoPasswordFromOutput_def sudo_prompt_def)
  show ?thesis
    using parse_panics_without_second_line[OF h o x] h o x by simp
qed

text \<open>
  Claim C9 as first stated fails for an execution that returns an error: the command
  exits with status 2 and prints nothing, the scrubbed output is empty and has no
  newline, and the resolver returns the executor's error before the parse step; there is
  no panic.
\<close>

theorem parse_panics_without_second_line_counterexample:
  "fst (ExecuteCommand
          (snd (snd (OpenConnection
                       (answering_world ([], ''No such file'', Some (SSHExitError 2)))
                       empty_service (getFile_server example_connection))))
          (fst (snd (OpenConnection
                       (answering_world ([], ''No such file'', Some (SSHExitError 2)))
                       empty_service (getFile_server example_connection))))
          (combinedCmd (example_data False)) (getFile_server example_connection))
     = (Some \<lparr>Command = combinedCmd (example_data False), Stdout = [],
               Stderr = ''No such file'', ExitCode = 2\<rparr>,
        Some (SSHExitError 2))
   \<and> fst (getFile (answering_world ([], ''No such file'', Some (SSHExitError 2)))
            empty_service (example_data False))
       = Returned (Some (SSHExitError 2))
   \<and> fst (getFile (answering_world ([], ''No such file'', Some (SSHExitError 2)))
            empty_service (example_data False))
       \<noteq> Panicked IndexOutOfRange"
  by (simp add: run_defs scrub_defs Let_def)

text \<open>
  Claim C2, as amended.  For every successful resolve, line 0 of the scrubbed output is
  not used, the identity is the address, a hyphen and the trimmed line 1, and the content
  is the lines from index 2 on, joined by newlines.  For the output
  \<^verbatim>\<open>"\n1042\nline1\nline2\n"\<close> and the address \<^verbatim>\<open>"10.0.0.5"\<close> the identity is
  \<^verbatim>\<open>"10.0.0.5-1042"\<close> and the content is \<^verbatim>\<open>"line1\nline2\n"\<close>: the empty piece after
  the last newline is one of the lines joined, so the content ends in a newline.
\<close>

theorem resolve_parse:
  assumes "HostConnection data = Some hc"
    and "OpenConnection w service (getFile_server hc) = (None, service1, w1)"
    and "ExecuteCommand w1 service1 (combinedCmd data) (getFile_server hc)
           = ((Some command, None), server1, w2)"
    and "2 \<le> length (Split (Stdout command) nl)"
  shows "getFile w service data
           = (Returned None,
              data\<lparr>Id' := StringValue (Address (getFile_server hc) @ ''-''
                              @ TrimSpace (Split (Stdout command) nl ! 1)),
                   Content := StringValue
                     (if ValueBool (Sensitive data) then []
                      else Join (drop 2 (Split (Stdout command) nl)) [nl]),
                   SensitiveContent := StringValue
                     (if ValueBool (Sensitive data)
                      then Join (drop 2 (Split (Stdout command) nl)) [nl] else [])\<rparr>,
              service1, w2)
         \<and> getFile_parse (example_data False) example_connection
               \<lparr>Command = cmd,
                Stdout = [nl] @ ''1042'' @ [nl] @ ''line1'' @ [nl] @ ''line2'' @ [nl],
                Stderr = [], ExitCode = 0\<rparr>
             = (Returned None,
                (example_data False)
                  \<lparr>Id' := StringValue ''10.0.0.5-1042'',
                   Content := StringValue (''line1'' @ [nl] @ ''line2'' @ [nl]),
                   SensitiveContent := StringValue []\<rparr>)"
proof
  have z: "ExitCode command = 0"
    using ExecuteCommand_no_error[OF assms(3)] by simp
  have n: "nl \<in> set (Stdout command)"
    using assms(4) Split_two_lines[of "Stdout command" nl] by simp
  have a: "Address (getFile_server hc) = ValueString (hc_Host hc)"
    by (simp add: getFile_server_def)
  show "getFile w service data
           = (Returned None,
              data\<lparr>Id' := StringValue (Address (getFile_server hc) @ ''-''
                              @ TrimSpace (Split (Stdout command) nl ! 1)),
                   Content := StringValue
                     (if ValueBool (Sensitive data) then []
                      else Join (drop 2 (Split (Stdout command) nl)) [nl]),
                   SensitiveContent := StringValue
                     (if ValueBool (Sensitive data)
                      then Join (drop 2 (Split (Stdout command) nl)) [nl] else [])\<rparr>,
              service1, w2)"
    using getFile_reaches_parse[OF assms(1,2,3)] getFile_parse_exit0[OF z, of data hc] n a
    by simp
  show "getFile_parse (example_data False) example_connection
               \<lparr>Command = cmd,
                Stdout = [nl] @ ''1042'' @ [nl] @ ''line1'' @ [nl] @ ''line2'' @ [nl],
                Stderr = [], ExitCode = 0\<rparr>
             = (Returned None,
                (example_data False)
                  \<lparr>Id' := StringValue ''10.0.0.5-1042'',
                   Content := StringValue (''line1'' @ [nl] @ ''line2'' @ [nl]),
                   SensitiveContent := StringValue []\<rparr>)"
    by (simp add: getFile_parse_def example_data_def example_connection_def Let_def
          TrimSpace_def unicode_White_Space_def leading_width_def)
qed

text \<open>
  The same example end to end, from the empty registry: the session prints one more
  empty line in front, which scrubbing with the empty sudo password removes.
\<close>

theorem resolve_parse_witness:
  "HostConnection (example_data False) = Some example_connection
   \<and> fst (OpenConnection
            (answering_world ([nl] @ [nl] @ ''1042'' @ [nl] @ ''line1'' @ [nl] @ ''line2'' @ [nl],
                              [], None))
            empty_service (getFile_server example_connection)) = None
   \<and> 2 \<le> length (Split ([nl] @ ''1042'' @ [nl] @ ''line1'' @ [nl] @ ''line2'' @ [nl]) nl)
   \<and> fst (getFile
            (answering_world ([nl] @ [nl] @ ''1042'' @ [nl] @ ''line1'' @ [nl] @ ''line2'' @ [nl],
                              [], None))
            empty_service (example_data False)) = Returned None
   \<and> fst (snd (getFile
            (answering_world ([nl] @ [nl] @ ''1042'' @ [nl] @ ''line1'' @ [nl] @ ''line2'' @ [nl],
                              [], None))
            empty_service (example_data False)))
       = (example_data False)
           \<lparr>Id' := StringValue ''10.0.0.5-1042'',
            Content := StringValue (''line1'' @ [nl] @ ''line2'' @ [nl]),
            SensitiveContent := StringValue []\<rparr>"
proof -
  let ?w = "answering_world ([nl] @ [nl] @ ''1042'' @ [nl] @ ''line1'' @ [nl] @ ''line2'' @ [nl],
                              [], None)"
  let ?h = "getFile_server example_connection"
  let ?c = "\<lparr>Command = combinedCmd (example_data False),
             Stdout = [nl] @ ''1042'' @ [nl] @ ''line1'' @ [nl] @ ''line2'' @ [nl],
             Stderr = [], ExitCode = 0\<rparr>"
  have h: "HostConnection (example_data False) = Some example_connection"
    by (simp add: example_data_def)
  obtain service1 w1 where
    o: "OpenConnection ?w empty_service ?h = (None, service1, w1)"
    by (simp add: run_defs Let_def)
  obtain server1 w2 where
    x: "ExecuteCommand w1 service1 (combinedCmd (example_data False)) ?h
          = ((Some ?c, None), server1, w2)"
    using o by (auto simp: run_defs Let_def scrub_defs)
  have l: "2 \<le> length (Split (Stdout ?c) nl)"
    by simp
  have e: "Address ?h = ''10.0.0.5''"
    and v: "ValueBool (Sensitive (example_data False)) = False"
    by (simp_all add: getFile_server_def example_connection_def example_data_def)
  have t: "TrimSpace (Split (Stdout ?c) nl ! 1) = ''1042''"
    by (simp add: TrimSpace_def unicode_White_Space_def leading_width_def)
  have j: "Join (drop 2 (Split (Stdout ?c) nl)) [nl] = ''line1'' @ [nl] @ ''line2'' @ [nl]"
    by simp
  show ?thesis
    using resolve_parse[OF h o x l] h o l e v t j by simp
qed

text \<open>
  Claim C2 as first stated gives the content \<^verbatim>\<open>"line1\nline2"\<close> for that output; the
  parse step yields \<^verbatim>\<open>"line1\nline2\n"\<close>.
\<close>

theorem resolve_parse_counterexample:
  "Id' (snd (getFile_parse (example_data False) example_connection
               \<lparr>Command = combinedCmd (example_data False),
                Stdout = [nl] @ ''1042'' @ [nl] @ ''line1'' @ [nl] @ ''line2'' @ [nl],
                Stderr = [], ExitCode = 0\<rparr>))
     = StringValue ''10.0.0.5-1042''
   \<and> Content (snd (getFile_parse (example_data False) example_connection
               \<lparr>Command = combinedCmd (example_data False),
                Stdout = [nl] @ ''1042'' @ [nl] @ ''line1'' @ [nl] @ ''line2'' @ [nl],
                Stderr = [], ExitCode = 0\<rparr>))
     = StringValue (''line1'' @ [nl] @ ''line2'' @ [nl])
   \<and> Content (snd (getFile_parse (example_data False) example_connection
               \<lparr>Command = combinedCmd (example_data False),
                Stdout = [nl] @ ''1042'' @ [nl] @ ''line1'' @ [nl] @ ''line2'' @ [nl],
                Stderr = [], ExitCode = 0\<rparr>))
     \<noteq> StringValue (''line1'' @ [nl] @ ''line2'')"
  by (simp add: getFile_parse_def example_data_def example_connection_def Let_def
        TrimSpace_def unicode_White_Space_def leading_width_def)

text \<open>
  Claim C3, as amended.  For every successful resolve, the content field that the
  sensitive flag does not select is the empty string and the selected one (the redacted
  field exactly when the flag is set) holds the content, which may itself be empty; the
  flag is left as it was.
\<close>

theorem sensitivity_partition:
  assumes "getFile w service data = (Returned None, data1, service1, w2)"
  shows "\<exists>hc w1 command server1.
           ExecuteCommand w1 service1 (combinedCmd data) (getFile_server hc)
             = ((Some command, None), server1, w2)
           \<and> Content data1 = StringValue
                (if ValueBool (Sensitive data) then []
                 else Join (drop 2 (Split (Stdout command) nl)) [nl])
           \<and> SensitiveContent data1 = StringValue
                (if ValueBool (Sensitive data)
                 then Join (drop 2 (Split (Stdout command) nl)) [nl] else [])
           \<and> Sensitive data1 = Sensitive data"
proof -
  from getFile_success_path[OF assms] obtain hc w1 command server1 where
    x: "ExecuteCommand w1 service1 (combinedCmd data) (getFile_server hc)
          = ((Some command, None), server1, w2)"
    and p: "getFile_parse data hc command = (Returned None, data1)"
    by blast
  have z: "ExitCode command = 0"
    using ExecuteCommand_no_error[OF x] by simp
  have "Content data1 = StringValue
                (if ValueBool (Sensitive data) then []
                 else Join (drop 2 (Split (Stdout command) nl)) [nl])
        \<and> SensitiveContent data1 = StringValue
                (if ValueBool (Sensitive data)
                 then Join (drop 2 (Split (Stdout command) nl)) [nl] else [])
        \<and> Sensitive data1 = Sensitive data"
    using p getFile_parse_exit0[OF z, of data hc]
    by (cases "nl \<in> set (Stdout command)") auto
  then show ?thesis using x by blast
qed

text \<open>A sensitive file of two lines: the plain field is empty, the redacted one is not.\<close>

theorem sensitivity_partition_witness:
  "fst (getFile
          (answering_world ([nl] @ [nl] @ ''1042'' @ [nl] @ ''line1'' @ [nl] @ ''line2'' @ [nl],
                            [], None))
          empty_service (example_data True)) = Returned None
   \<and> Content (fst (snd (getFile
          (answering_world ([nl] @ [nl] @ ''1042'' @ [nl] @ ''line1'' @ [nl] @ ''line2'' @ [nl],
                            [], None))
          empty_service (example_data True)))) = StringValue []
   \<and> SensitiveContent (fst (snd (getFile
          (answering_world ([nl] @ [nl] @ ''1042'' @ [nl] @ ''line1'' @ [nl] @ ''line2'' @ [nl],
                            [], None))
          empty_service (example_data True))))
       = StringValue (''line1'' @ [nl] @ ''line2'' @ [nl])"
proof -
  let ?w = "answering_world ([nl] @ [nl] @ ''1042'' @ [nl] @ ''line1'' @ [nl] @ ''line2'' @ [nl],
                            [], None)"
  obtain data1 service1 w2 where
    g: "getFile ?w empty_service (example_data True) = (Returned None, data1, service1, w2)"
    by (simp add: run_defs Let_def scrub_defs getFile_parse_def)
  have s: "ValueBool (Sensitive (example_data True))"
    by (simp add: example_data_def)
  have c: "SensitiveContent data1 = StringValue (''line1'' @ [nl] @ ''line2'' @ [nl])"
    using g by (auto simp: run_defs Let_def scrub_defs getFile_parse_def)
  show ?thesis
    using sensitivity_partition[OF g] g s c by auto
qed

text \<open>
  Claim C3 as first stated fails for an empty remote file: the resolve succeeds and both
  content fields are the empty string, so neither is non-empty.
\<close>

theorem sensitivity_partition_counterexample:
  "fst (getFile (answering_world ([nl] @ [nl] @ ''1042'' @ [nl], [], None))
          empty_service (example_data True)) = Returned None
   \<and> Id' (fst (snd (getFile (answering_world ([nl] @ [nl] @ ''1042'' @ [nl], [], None))
          empty_service (example_data True)))) = StringValue ''10.0.0.5-1042''
   \<and> Content (fst (snd (getFile (answering_world ([nl] @ [nl] @ ''1042'' @ [nl], [], None))
          empty_service (example_data True)))) = StringValue []
   \<and> SensitiveContent (fst (snd (getFile (answering_world ([nl] @ [nl] @ ''1042'' @ [nl], [], None))
          empty_service (example_data True)))) = StringValue []"
  by (simp add: run_defs Let_def scrub_defs getFile_parse_def
        TrimSpace_def unicode_White_Space_def leading_width_def)

end
